theory Spec2Isabelle
  imports Complex_Main
begin

section \<open>JavaScript values and strings\<close>

text \<open>
  A JavaScript string is a sequence of UTF-16 code units; a code unit is modelled as a
  natural number. \<open>js\<close> embeds an ASCII literal of the source.
\<close>

type_synonym jsstring = "nat list"

definition js :: "string \<Rightarrow> jsstring" where
  "js s = map of_char s"

text \<open>
  The values a JavaScript variable can hold, as far as the server distinguishes them.
  \<open>JNaN\<close> is the number NaN, \<open>JObject\<close> stands for any object or array.
\<close>

datatype jsval = JUndefined | JNull | JBool bool | JNum rat | JNaN | JStr jsstring | JObject

datatype jstype = TUndefined | TObject | TBoolean | TNumber | TString

fun typeof :: "jsval \<Rightarrow> jstype" where
  "typeof JUndefined = TUndefined"
| "typeof JNull = TObject"
| "typeof (JBool b) = TBoolean"
| "typeof (JNum x) = TNumber"
| "typeof JNaN = TNumber"
| "typeof (JStr s) = TString"
| "typeof JObject = TObject"

text \<open>ToBoolean: what \<open>!v\<close> and \<open>if (v)\<close> test.\<close>

fun truthy :: "jsval \<Rightarrow> bool" where
  "truthy JUndefined = False"
| "truthy JNull = False"
| "truthy (JBool b) = b"
| "truthy (JNum x) = (x \<noteq> 0)"
| "truthy JNaN = False"
| "truthy (JStr s) = (s \<noteq> [])"
| "truthy JObject = True"

text \<open>
  The code units that \<open>String.prototype.trim\<close> strips and that \<open>\s\<close> matches
  (ECMAScript WhiteSpace and LineTerminator): TAB, LF, VT, FF, CR, SP, NBSP, U+1680,
  U+2000 to U+200A, U+2028, U+2029, U+202F, U+205F, U+3000, U+FEFF.
\<close>

definition isWhiteSpace :: "nat \<Rightarrow> bool" where
  "isWhiteSpace c \<longleftrightarrow>
     c \<in> set [9, 10, 11, 12, 13, 32, 160, 5760, 8232, 8233, 8239, 8287, 12288, 65279]
     \<or> (8192 \<le> c \<and> c \<le> 8202)"

definition trim :: "jsstring \<Rightarrow> jsstring" where
  "trim s = rev (dropWhile isWhiteSpace (rev (dropWhile isWhiteSpace s)))"

text \<open>\<open>\w\<close>: the characters on whose edges \<open>\b\<close> matches, \<open>[A-Za-z0-9_]\<close>.\<close>

definition isWordChar :: "nat \<Rightarrow> bool" where
  "isWordChar c \<longleftrightarrow>
     (48 \<le> c \<and> c \<le> 57) \<or> (65 \<le> c \<and> c \<le> 90) \<or> c = 95 \<or> (97 \<le> c \<and> c \<le> 122)"

text \<open>
  Canonicalize of the \<open>i\<close> flag (without \<open>u\<close>): the upper-case form of a code unit.
  ECMAScript never maps a code unit of 128 or more to one below 128, and every pattern
  character of this program is ASCII, so only the folding of \<open>a\<close> to \<open>z\<close> is written out.
\<close>

definition canonicalize :: "nat \<Rightarrow> nat" where
  "canonicalize c = (if 97 \<le> c \<and> c \<le> 122 then c - 32 else c)"

section \<open>Regular expressions of the source\<close>

text \<open>
  The fragment of regular expressions that the source uses: \<open>^\<close>, \<open>\b\<close>, a literal
  character, \<open>\s\<close>, and \<open>*\<close>, \<open>+\<close>, \<open>?\<close> on a single character or class, sequence and
  alternation.
\<close>

datatype atom = AChar nat | ASpace

datatype rx = Eps | Bol | WordB | One atom | Star atom | Plus atom | Opt atom
  | Seq rx rx | Alt rx rx

fun atom_ok :: "bool \<Rightarrow> atom \<Rightarrow> nat \<Rightarrow> bool" where
  "atom_ok ic (AChar k) c = (if ic then canonicalize c = canonicalize k else c = k)"
| "atom_ok ic ASpace c = isWhiteSpace c"

text \<open>
  A matcher state is the code unit before the current position (\<open>None\<close> at the start of
  the input) and the rest of the input. \<open>rmatch\<close> lists the states in which a match of
  the expression starting here can end, in the order in which a backtracking matcher
  tries them (greedy quantifiers: longest first). The flag is \<open>i\<close> (ignore case).
\<close>

type_synonym mstate = "nat option \<times> jsstring"

fun mstar :: "bool \<Rightarrow> atom \<Rightarrow> nat option \<Rightarrow> jsstring \<Rightarrow> mstate list" where
  "mstar ic a p [] = [(p, [])]"
| "mstar ic a p (c # cs) =
     (if atom_ok ic a c then mstar ic a (Some c) cs else []) @ [(p, c # cs)]"

definition wordAt :: "nat option \<Rightarrow> bool" where
  "wordAt p = (case p of None \<Rightarrow> False | Some c \<Rightarrow> isWordChar c)"

definition peek :: "jsstring \<Rightarrow> nat option" where
  "peek s = (case s of [] \<Rightarrow> None | c # cs \<Rightarrow> Some c)"

fun rmatch :: "bool \<Rightarrow> rx \<Rightarrow> mstate \<Rightarrow> mstate list" where
  "rmatch ic Eps st = [st]"
| "rmatch ic Bol (p, s) = (if p = None then [(p, s)] else [])"
| "rmatch ic WordB (p, s) = (if wordAt p \<noteq> wordAt (peek s) then [(p, s)] else [])"
| "rmatch ic (One a) (p, s) =
     (case s of [] \<Rightarrow> [] | c # cs \<Rightarrow> if atom_ok ic a c then [(Some c, cs)] else [])"
| "rmatch ic (Star a) (p, s) = mstar ic a p s"
| "rmatch ic (Plus a) (p, s) =
     (case s of [] \<Rightarrow> [] | c # cs \<Rightarrow> if atom_ok ic a c then mstar ic a (Some c) cs else [])"
| "rmatch ic (Opt a) (p, s) =
     (case s of [] \<Rightarrow> [] | c # cs \<Rightarrow> if atom_ok ic a c then [(Some c, cs)] else []) @ [(p, s)]"
| "rmatch ic (Seq r1 r2) st = concat (map (rmatch ic r2) (rmatch ic r1 st))"
| "rmatch ic (Alt r1 r2) st = rmatch ic r1 st @ rmatch ic r2 st"

text \<open>\<open>RegExp.prototype.test\<close> of a regular expression without the \<open>g\<close> flag: is there a
  match starting at some index of the string.\<close>

fun rsearch :: "bool \<Rightarrow> rx \<Rightarrow> nat option \<Rightarrow> jsstring \<Rightarrow> bool" where
  "rsearch ic r p [] = (rmatch ic r (p, []) \<noteq> [])"
| "rsearch ic r p (c # cs) = (rmatch ic r (p, c # cs) \<noteq> [] \<or> rsearch ic r (Some c) cs)"

definition rtest :: "bool \<Rightarrow> rx \<Rightarrow> jsstring \<Rightarrow> bool" where
  "rtest ic r s = rsearch ic r None s"

text \<open>
  \<open>s.replace(r, "")\<close> for a regular expression with the \<open>g\<close> flag: scanning from the
  left, the first way to match at the leftmost position is removed and the scan goes on
  behind it. The counter is the number of code units of the current match still to drop;
  an empty match removes nothing and the scan advances by one code unit.
\<close>

fun rremove :: "bool \<Rightarrow> rx \<Rightarrow> nat \<Rightarrow> nat option \<Rightarrow> jsstring \<Rightarrow> jsstring" where
  "rremove ic r k p [] = []"
| "rremove ic r (Suc k) p (c # cs) = rremove ic r k (Some c) cs"
| "rremove ic r 0 p (c # cs) =
     (case rmatch ic r (p, c # cs) of
        [] \<Rightarrow> c # rremove ic r 0 (Some c) cs
      | (q, rest) # other \<Rightarrow>
          (let n = length (c # cs) - length rest
           in if n = 0 then c # rremove ic r 0 (Some c) cs
              else rremove ic r (n - 1) (Some c) cs))"

definition replaceAll_empty :: "bool \<Rightarrow> rx \<Rightarrow> jsstring \<Rightarrow> jsstring" where
  "replaceAll_empty ic r s = rremove ic r 0 None s"

text \<open>A literal word as a regular expression.\<close>

fun lit :: "jsstring \<Rightarrow> rx" where
  "lit [] = Eps"
| "lit (c # cs) = Seq (One (AChar c)) (lit cs)"

text \<open>\<open>String.prototype.includes\<close>: the argument occurs as a substring.\<close>

fun startsWith :: "jsstring \<Rightarrow> jsstring \<Rightarrow> bool" where
  "startsWith s [] = True"
| "startsWith [] (k # ks) = False"
| "startsWith (c # cs) (k # ks) = (c = k \<and> startsWith cs ks)"

fun str_includes :: "jsstring \<Rightarrow> jsstring \<Rightarrow> bool" where
  "str_includes [] t = startsWith [] t"
| "str_includes (c # cs) t = (startsWith (c # cs) t \<or> str_includes cs t)"

section \<open>The SQL shape validator (server.js, isValidSqlQuery)\<close>

text \<open>\<open>/^\s*(WITH|SELECT)\s+/i\<close>\<close>

definition rx_starts :: rx where
  "rx_starts =
     Seq Bol (Seq (Star ASpace)
       (Seq (Alt (lit (js ''WITH'')) (lit (js ''SELECT''))) (Plus ASpace)))"

text \<open>\<open>/\bFROM\s+/i\<close> and \<open>/\bSELECT\s+/i\<close>\<close>

definition rx_from :: rx where
  "rx_from = Seq WordB (Seq (lit (js ''FROM'')) (Plus ASpace))"

definition rx_select :: rx where
  "rx_select = Seq WordB (Seq (lit (js ''SELECT'')) (Plus ASpace))"

text \<open>
  The function as written, without its console output: the guard on the argument, the
  trim, the emptiness test, the prefix test and the structure test.
\<close>

definition isValidSqlQuery :: "jsval \<Rightarrow> bool" where
  "isValidSqlQuery sqlQuery =
     (if \<not> truthy sqlQuery \<or> typeof sqlQuery \<noteq> TString then False
      else (case sqlQuery of
              JStr s \<Rightarrow>
                (let trimmedSql = trim s in
                 if trimmedSql = [] then False
                 else
                   (let startsCorrectly = rtest True rx_starts trimmedSql in
                    if \<not> startsCorrectly then False
                    else
                      (let hasBasicStructure =
                             (rtest True rx_from trimmedSql \<or> rtest True rx_select trimmedSql)
                       in hasBasicStructure)))
            | _ \<Rightarrow> False))"

section \<open>Effects: the outside world of the server\<close>

text \<open>
  The server talks to the text-generation service and to the database pool. Each
  function that does so takes the world and returns it: the world holds the calls made so
  far, in order, and the number of pooled clients checked out and not yet released:
  \<open>GroqCreate\<close> is a call of \<open>groq.chat.completions.create\<close> with the name of the
  model, \<open>Delay\<close> a wait of so many milliseconds, \<open>Validate\<close> a call of the validator
  by the handler, the other three are the calls to the pool and its client. Console output
  is left out. A thrown \<open>Error\<close> is its message.
\<close>

datatype event =
    GroqCreate jsstring
  | Delay nat
  | Validate
  | PoolConnect
  | ClientQuery jsstring
  | ClientRelease

record world =
  trace :: "event list"
  leased :: nat

definition emit :: "event \<Rightarrow> world \<Rightarrow> world" where
  "emit e w = w\<lparr>trace := trace w @ [e]\<rparr>"

datatype 'a outcome = Return 'a | Throw jsstring

text \<open>
  What \<open>groq.chat.completions.create\<close> does at one call: it resolves to a completion,
  of which the code reads \<open>choices[0]?.message?.content\<close> (\<open>None\<close> when a link of
  that chain is missing), or the call ends with an error that has a \<open>status\<close> (absent
  for errors that are not HTTP errors) and a \<open>message\<close>. The service is given to
  \<open>getAiSql\<close> and \<open>getAiSummary\<close> as its result at each attempt; the prompt, which
  is built from the question, the query text and a sample of the rows, is not modelled.
\<close>

datatype groq_result = Completion "jsstring option" | ApiError "nat option" jsstring

text \<open>The decimal digits of a number, as a template literal prints it.\<close>

function show_nat :: "nat \<Rightarrow> jsstring" where
  "show_nat n = (if n < 10 then [48 + n] else show_nat (n div 10) @ [48 + n mod 10])"
  by pat_completeness auto
termination
  by (relation "measure id") auto

declare show_nat.simps [simp del]

section \<open>The generator (ai.js, fixed version, getAiSql)\<close>

definition model_sql :: jsstring where
  "model_sql = js ''llama3-70b-8192''"

text \<open>The code fence of three backquotes (code unit 96).\<close>

definition fence :: jsstring where
  "fence = [96, 96, 96]"

text \<open>The three global expressions of the cleanup: the fence followed by \<open>sql\<close> and an
  optional line feed, the fence and an optional line feed, the fence.\<close>

definition rx_fence_sql :: rx where
  "rx_fence_sql = Seq (lit (fence @ js ''sql'')) (Opt (AChar 10))"

definition rx_fence_nl :: rx where
  "rx_fence_nl = Seq (lit fence) (Opt (AChar 10))"

definition rx_fence :: rx where
  "rx_fence = lit fence"

text \<open>Lines 127 to 137: the cleanup of a response that is not empty.\<close>

definition cleanup :: "jsstring \<Rightarrow> jsstring" where
  "cleanup sqlQuery =
     (let cleanSql = sqlQuery;
          cleanSql =
            (if str_includes cleanSql (fence @ js ''sql'')
             then trim (replaceAll_empty False rx_fence_nl
                          (replaceAll_empty False rx_fence_sql cleanSql))
             else cleanSql);
          cleanSql =
            (if str_includes cleanSql fence
             then trim (replaceAll_empty False rx_fence cleanSql)
             else cleanSql)
      in cleanSql)"

text \<open>
  The \<open>try\<close> block of one attempt, given what the service did: \<open>Inr\<close> the value
  returned, \<open>Inl\<close> the status and message of the error that reaches the \<open>catch\<close>
  block. The error thrown for an empty response has no status.
\<close>

definition sql_attempt :: "groq_result \<Rightarrow> (nat option \<times> jsstring) + jsstring" where
  "sql_attempt r =
     (case r of
        ApiError status msg \<Rightarrow> Inl (status, msg)
      | Completion content \<Rightarrow>
          (let sqlQuery = (case content of None \<Rightarrow> [] | Some c \<Rightarrow> trim c)
           in if sqlQuery = [] then Inl (None, js ''Empty SQL response from AI'')
              else Inr (cleanup sqlQuery)))"

text \<open>
  The loop \<open>for (attempt = 1; attempt <= maxRetries; attempt++)\<close>. The service is
  given by its result at each attempt. A loop that ends without a \<open>return\<close> makes the
  function return \<open>undefined\<close>, here \<open>None\<close>.
\<close>

function getAiSql_from ::
  "(nat \<Rightarrow> groq_result) \<Rightarrow> nat \<Rightarrow> nat \<Rightarrow> world \<Rightarrow> jsstring option outcome \<times> world" where
  "getAiSql_from gen maxRetries attempt w =
     (if attempt \<le> maxRetries then
        (let w1 = emit (GroqCreate model_sql) w
         in case sql_attempt (gen attempt) of
              Inr cleanSql \<Rightarrow> (Return (Some cleanSql), w1)
            | Inl (status, msg) \<Rightarrow>
                if status = Some 503 \<and> attempt < maxRetries then
                  getAiSql_from gen maxRetries (attempt + 1) (emit (Delay (attempt * 2000)) w1)
                else if attempt = maxRetries then
                  (Throw (js ''Failed to generate SQL after '' @ show_nat maxRetries
                            @ js '' attempts: '' @ msg), w1)
                else getAiSql_from gen maxRetries (attempt + 1) w1)
      else (Return None, w))"
  by pat_completeness auto
termination
  by (relation "measure (\<lambda>(gen, maxRetries, attempt, w). maxRetries + 1 - attempt)") auto

declare getAiSql_from.simps [simp del]

definition getAiSql ::
  "(nat \<Rightarrow> groq_result) \<Rightarrow> jsval \<Rightarrow> nat \<Rightarrow> world \<Rightarrow> jsstring option outcome \<times> world" where
  "getAiSql gen userQuery maxRetries w = getAiSql_from gen maxRetries 1 w"

section \<open>The summarizer (ai.js, getAiSummary)\<close>

definition model_summary :: jsstring where
  "model_summary = js ''llama3-8b-8192''"

definition no_results :: jsstring where
  "no_results = js ''Query executed successfully but returned no results.''"

definition found_template :: "nat \<Rightarrow> jsstring" where
  "found_template n =
     js ''Query found '' @ show_nat n @ js '' result(s). See the data table for details.''"

definition fallback_template :: "nat \<Rightarrow> jsstring" where
  "fallback_template n =
     js ''Query executed successfully and returned '' @ show_nat n
       @ js '' result(s). Please review the data below.''"

text \<open>The loop of the fixed version, for a row set that is not empty.\<close>

function getAiSummary_from ::
  "(nat \<Rightarrow> groq_result) \<Rightarrow> 'r list \<Rightarrow> nat \<Rightarrow> nat \<Rightarrow> world \<Rightarrow> jsstring option outcome \<times> world"
  where
  "getAiSummary_from summ data maxRetries attempt w =
     (if attempt \<le> maxRetries then
        (let w1 = emit (GroqCreate model_summary) w
         in case summ attempt of
              Completion content \<Rightarrow>
                (let text = (case content of None \<Rightarrow> [] | Some c \<Rightarrow> trim c)
                 in (Return (Some (if text \<noteq> [] then text else found_template (length data))),
                     w1))
            | ApiError status msg \<Rightarrow>
                if attempt = maxRetries then
                  (Return (Some (fallback_template (length data))), w1)
                else if status = Some 503 \<and> attempt < maxRetries then
                  getAiSummary_from summ data maxRetries (attempt + 1) (emit (Delay 1000) w1)
                else getAiSummary_from summ data maxRetries (attempt + 1) w1)
      else (Return None, w))"
  by pat_completeness auto
termination
  by (relation "measure (\<lambda>(summ, data, maxRetries, attempt, w). maxRetries + 1 - attempt)") auto

declare getAiSummary_from.simps [simp del]

text \<open>\<open>data\<close> is \<open>None\<close> when the argument is \<open>undefined\<close> or \<open>null\<close>.\<close>

definition getAiSummary ::
  "(nat \<Rightarrow> groq_result) \<Rightarrow> jsval \<Rightarrow> jsstring \<Rightarrow> 'r list option \<Rightarrow> nat \<Rightarrow> world
     \<Rightarrow> jsstring option outcome \<times> world" where
  "getAiSummary summ userQuery sqlQuery data maxRetries w =
     (case data of
        None \<Rightarrow> (Return (Some no_results), w)
      | Some rows \<Rightarrow>
          if length rows = 0 then (Return (Some no_results), w)
          else getAiSummary_from summ rows maxRetries 1 w)"

text \<open>The first version of the summarizer (src/ai.js): one attempt, and a failure of
  the service is thrown on.\<close>

definition no_results_v1 :: jsstring where
  "no_results_v1 = js ''The query ran successfully, but returned no results.''"

definition getAiSummary_v1 ::
  "groq_result \<Rightarrow> jsval \<Rightarrow> jsstring \<Rightarrow> 'r list option \<Rightarrow> world \<Rightarrow> jsstring outcome \<times> world"
  where
  "getAiSummary_v1 summ userQuery sqlQuery data w =
     (case data of
        None \<Rightarrow> (Return no_results_v1, w)
      | Some rows \<Rightarrow>
          if length rows = 0 then (Return no_results_v1, w)
          else
            (let w1 = emit (GroqCreate model_summary) w
             in case summ of
                  Completion content \<Rightarrow>
                    (let text = (case content of None \<Rightarrow> [] | Some c \<Rightarrow> trim c)
                     in (Return (if text \<noteq> [] then text else js ''Could not generate a summary.''),
                         w1))
                | ApiError status msg \<Rightarrow>
                    (Throw (js ''Failed to generate summary from GROQ API.''), w1)))"

section \<open>The executor (db.js, executeQuery)\<close>

text \<open>
  \<open>pool.connect()\<close> resolves to a client, which is then checked out, or rejects with an
  error; \<open>client.query\<close> resolves to the rows or rejects; \<open>client.release()\<close> gives the
  client back.
\<close>

definition acquire :: "world \<Rightarrow> world" where
  "acquire w = w\<lparr>leased := leased w + 1\<rparr>"

definition release :: "world \<Rightarrow> world" where
  "release w = (emit ClientRelease w)\<lparr>leased := leased w - 1\<rparr>"

text \<open>
  The database is given by what \<open>pool.connect\<close> does (\<open>Some\<close> the message of its
  error, or \<open>None\<close> when a client is handed out) and by what \<open>client.query\<close> does on a
  query text and its parameters. The \<open>try\<close> block sets \<open>client\<close> and ends with the
  result or an error, the \<open>catch\<close> block wraps the error, the \<open>finally\<close> block
  releases the client if there is one.
\<close>

definition executeQuery ::
  "jsstring option \<Rightarrow> (jsstring \<Rightarrow> jsval list \<Rightarrow> jsstring + 'r list) \<Rightarrow> jsstring \<Rightarrow> jsval list
     \<Rightarrow> world \<Rightarrow> 'r list outcome \<times> world" where
  "executeQuery connect run sql params w =
     (let (client, tried, w1) =
            (case connect of
               Some msg \<Rightarrow> (False, Inl msg, emit PoolConnect w)
             | None \<Rightarrow> (True, run sql params, emit (ClientQuery sql) (acquire (emit PoolConnect w))));
          result =
            (case tried of
               Inr rows \<Rightarrow> Return rows
             | Inl msg \<Rightarrow> Throw (js ''Database execution error: '' @ msg));
          w2 = (if client then release w1 else w1)
      in (result, w2))"

section \<open>The request handler (server.js, POST /api/query)\<close>

datatype 'r body =
    ErrorOnly jsstring
  | ErrorDetails jsstring jsstring jsstring
  | Payload "'r list" jsstring jsstring

text \<open>The \<open>catch\<close> block of the handler: the response for a thrown error.\<close>

definition error_response :: "jsstring \<Rightarrow> nat \<times> 'r body" where
  "error_response msg =
     (if str_includes msg (js ''Service unavailable'') \<or> str_includes msg (js ''503'') then
        (503, ErrorDetails (js ''AI service temporarily unavailable'')
                (js ''GROQ API is down. Try again in a few minutes.'')
                (js ''Check https://groqstatus.com/ for status''))
      else if str_includes msg (js ''Database execution error'') then
        (500, ErrorDetails (js ''Database query failed'') msg
                (js ''The SQL might have syntax errors''))
      else
        (500, ErrorDetails (js ''Internal server error'') msg (js ''Please try again'')))"

definition to_jsval :: "jsstring option \<Rightarrow> jsval" where
  "to_jsval v = (case v of None \<Rightarrow> JUndefined | Some s \<Rightarrow> JStr s)"

definition in_template :: "jsstring option \<Rightarrow> jsstring" where
  "in_template v = (case v of None \<Rightarrow> js ''undefined'' | Some s \<Rightarrow> s)"

text \<open>
  The body of the request is the JSON object that \<open>express.json()\<close> parsed, as its
  fields in order; \<open>userQuery\<close> is its \<open>query\<close> field, \<open>undefined\<close> when the object
  has none. The handler returns the status and the body of its response. Reading
  \<open>substring\<close> of a summary that is \<open>undefined\<close> is a TypeError, caught like the
  others.
\<close>

definition post_api_query ::
  "(nat \<Rightarrow> groq_result) \<Rightarrow> (nat \<Rightarrow> groq_result) \<Rightarrow> jsstring option
     \<Rightarrow> (jsstring \<Rightarrow> jsval list \<Rightarrow> jsstring + 'r list) \<Rightarrow> (jsstring \<times> jsval) list \<Rightarrow> world
     \<Rightarrow> (nat \<times> 'r body) \<times> world" where
  "post_api_query gen summ connect run req_body w =
     (let userQuery = (case map_of req_body (js ''query'') of None \<Rightarrow> JUndefined | Some v \<Rightarrow> v)
      in if \<not> truthy userQuery then ((400, ErrorOnly (js ''Query is required.'')), w)
         else
           (case getAiSql gen userQuery 3 w of
              (Throw msg, w1) \<Rightarrow> (error_response msg, w1)
            | (Return sqlQuery, w0) \<Rightarrow>
                (let w1 = emit Validate w0
                 in if \<not> isValidSqlQuery (to_jsval sqlQuery) then
                  ((500, ErrorDetails (js ''Generated SQL query is invalid'')
                           (js ''SQL: '' @ in_template sqlQuery)
                           (js ''Try rephrasing your question'')), w1)
                else
                  (case executeQuery connect run (in_template sqlQuery) [] w1 of
                     (Throw msg, w2) \<Rightarrow> (error_response msg, w2)
                   | (Return data, w2) \<Rightarrow>
                       (case getAiSummary summ userQuery (in_template sqlQuery) (Some data) 2 w2 of
                          (Throw msg, w3) \<Rightarrow> (error_response msg, w3)
                        | (Return None, w3) \<Rightarrow>
                            (error_response
                               (js ''Cannot read properties of undefined (reading '' @ [39]
                                  @ js ''substring'' @ [39] @ js '')''), w3)
                        | (Return (Some summary), w3) \<Rightarrow>
                            ((200, Payload data summary (in_template sqlQuery)), w3))))))"

section \<open>The loader (load_excel.mjs)\<close>

text \<open>
  A normalized date \<open>YYYY-MM-DD\<close> is its year, month and day. A JavaScript number that
  \<open>num\<close> and \<open>pct\<close> let through is finite; it is modelled as a rational and
  \<open>null\<close> as \<open>None\<close>. The rounding of floating-point arithmetic is not modelled;
  the results below depend only on which values are present, not on the quotient computed
  for the rated percentage.
\<close>

type_synonym date = "nat \<times> nat \<times> nat"

text \<open>
  What the first lines of the loop body (156 to 167) read from one row of the sheet:
  the five trimmed texts \<open>t(pick(r, ...))\<close>, the numbers \<open>num(pick(r, ...))\<close>, the
  percentage \<open>pct(pick(r, COLS.ratedPct))\<close>, and the date that \<open>normalizePstDate\<close>
  makes of the raw date cell (\<open>None\<close> for \<open>null\<close>). The parsing of cells rests on the
  xlsx and dayjs libraries and is taken as given.
\<close>

record sheet_row =
  r_topic :: jsstring
  r_type :: jsstring
  r_domain :: jsstring
  r_clazz :: jsstring
  r_instr :: jsstring
  r_pstDate :: "date option"
  r_average :: "rat option"
  r_responses :: "rat option"
  r_attended :: "rat option"
  r_ratedPct :: "rat option"

text \<open>\<open>qOf = (m) => Math.floor((m - 1) / 3) + 1\<close>: the subtraction and the rounding
  down are those of the integers, so month 0 gives quarter 0.\<close>

definition qOf :: "nat \<Rightarrow> nat" where
  "qOf m = nat ((int m - 1) div 3 + 1)"

subsection \<open>The tables (schema.sql)\<close>

text \<open>A dimension table: its rows (id, name) and the last value of its serial.\<close>

record dim_table =
  dim_rows :: "(nat \<times> jsstring) list"
  dim_serial :: nat

record fact_row =
  session_id :: nat
  topic_code :: "jsstring option"
  type_id :: nat
  domain_id :: nat
  class_id :: nat
  instructor_id :: nat
  session_ts_utc :: date
  pst_date :: date
  pst_year :: nat
  pst_month :: nat
  pst_quarter :: nat
  pst_month_start :: date
  average :: "rat option"
  responses :: "rat option"
  students_attended :: "rat option"
  rated_pct :: "rat option"

record database =
  dim_instructor :: dim_table
  dim_class :: dim_table
  dim_domain :: dim_table
  dim_type :: dim_table
  fact_session :: "fact_row list"
  sessions_made :: nat

text \<open>
  \<open>upsertDim\<close>: \<open>INSERT ... ON CONFLICT (name) DO UPDATE SET name = EXCLUDED.name
  RETURNING *\<close>. The row with this name is returned, after it was inserted with the next
  value of the serial if there was none. The serial advances also when the name exists.
\<close>

definition upsertDim :: "dim_table \<Rightarrow> jsstring \<Rightarrow> nat \<times> dim_table" where
  "upsertDim tbl val =
     (let next = dim_serial tbl + 1
      in case find (\<lambda>(i, name). name = val) (dim_rows tbl) of
           Some (i, name) \<Rightarrow> (i, tbl\<lparr>dim_serial := next\<rparr>)
         | None \<Rightarrow> (next, \<lparr>dim_rows = dim_rows tbl @ [(next, val)], dim_serial = next\<rparr>))"

text \<open>
  The arbiter of the fact upsert is the constraint
  \<open>UNIQUE (topic_code, type_id, domain_id, class_id, instructor_id, pst_date)\<close>. Two rows
  conflict when they agree on these six columns; a \<open>NULL\<close> topic code is distinct from
  every value, so a row without topic code conflicts with no row.
\<close>

definition conflicts :: "fact_row \<Rightarrow> fact_row \<Rightarrow> bool" where
  "conflicts new old \<longleftrightarrow>
     topic_code new \<noteq> None \<and> topic_code old = topic_code new \<and> type_id old = type_id new
     \<and> domain_id old = domain_id new \<and> class_id old = class_id new
     \<and> instructor_id old = instructor_id new \<and> pst_date old = pst_date new"

text \<open>
  \<open>INSERT INTO fact_session ... ON CONFLICT (...) DO UPDATE SET average = EXCLUDED.average,
  responses = EXCLUDED.responses, students_attended = EXCLUDED.students_attended,
  rated_pct = EXCLUDED.rated_pct RETURNING xmax = 0 AS inserted_flag\<close>, on the rows of
  the table: the proposed row is appended and the flag is true, or the conflicting row
  takes the four values of the proposed row and the flag is false.
\<close>

fun upsert_fact :: "fact_row \<Rightarrow> fact_row list \<Rightarrow> fact_row list \<times> bool" where
  "upsert_fact new [] = ([new], True)"
| "upsert_fact new (old # rest) =
     (if conflicts new old then
        (old\<lparr>average := average new, responses := responses new,
             students_attended := students_attended new, rated_pct := rated_pct new\<rparr> # rest,
         False)
      else (let (rest', inserted_flag) = upsert_fact new rest in (old # rest', inserted_flag)))"

subsection \<open>The loop of main\<close>

datatype etl_error = TypeError jsstring

record etl_state =
  inserted :: nat
  updated :: nat
  skipped :: nat
  badDate :: nat
  db :: database

text \<open>
  The body of \<open>for (const r of rows)\<close> from line 167 on. \<open>responses\<close> is declared
  with \<open>const\<close> (line 164), so the assignment of line 176 throws a TypeError when it
  is reached, whatever its right-hand side computes; nothing in the loop catches it. A number that \<open>num\<close> returned is never NaN, so the
  test \<open>Number.isNaN(responses)\<close> is false and left out.
\<close>

definition process_row :: "sheet_row \<Rightarrow> etl_state \<Rightarrow> etl_error + etl_state" where
  "process_row r st =
     (let topic = r_topic r; type = r_type r; domain = r_domain r; clazz = r_clazz r;
          instr = r_instr r;
          average = r_average r; responses = r_responses r; attended = r_attended r;
          rated = r_ratedPct r;
          rated =
            (case (rated, responses, attended) of
               (None, Some resp, Some att) \<Rightarrow> if att > 0 then Some (resp / att * 100) else rated
             | _ \<Rightarrow> rated)
      in if responses = None \<and> attended \<noteq> None \<and> rated \<noteq> None then
           Inl (TypeError (js ''Assignment to constant variable.''))
         else if type = [] \<or> domain = [] \<or> clazz = [] \<or> instr = [] then
           Inr (st\<lparr>skipped := skipped st + 1\<rparr>)
         else
           (case r_pstDate r of
              None \<Rightarrow> Inr (st\<lparr>badDate := badDate st + 1, skipped := skipped st + 1\<rparr>)
            | Some (y, m, d) \<Rightarrow>
                (let (di, t1) = upsertDim (dim_instructor (db st)) instr;
                     (dc, t2) = upsertDim (dim_class (db st)) clazz;
                     (dd, t3) = upsertDim (dim_domain (db st)) domain;
                     (dt, t4) = upsertDim (dim_type (db st)) type;
                     q = qOf m;
                     monthStart = (y, m, 1);
                     new = \<lparr>session_id = sessions_made (db st) + 1,
                            topic_code = (if topic = [] then None else Some topic),
                            type_id = dt, domain_id = dd, class_id = dc, instructor_id = di,
                            session_ts_utc = (y, m, d), pst_date = (y, m, d), pst_year = y,
                            pst_month = m, pst_quarter = q, pst_month_start = monthStart,
                            average = average, responses = responses,
                            students_attended = attended, rated_pct = rated\<rparr>;
                     (facts, inserted_flag) = upsert_fact new (fact_session (db st));
                     db' = \<lparr>dim_instructor = t1, dim_class = t2, dim_domain = t3, dim_type = t4,
                            fact_session = facts, sessions_made = sessions_made (db st) + 1\<rparr>
                 in if inserted_flag then Inr (st\<lparr>inserted := inserted st + 1, db := db'\<rparr>)
                    else Inr (st\<lparr>updated := updated st + 1, db := db'\<rparr>))))"

fun main_loop :: "sheet_row list \<Rightarrow> etl_state \<Rightarrow> etl_error + etl_state" where
  "main_loop [] st = Inr st"
| "main_loop (r # rows) st =
     (case process_row r st of Inl e \<Rightarrow> Inl e | Inr st' \<Rightarrow> main_loop rows st')"

text \<open>
  \<open>main\<close> on the rows of the sheet and the database it connects to: the four numbers it
  prints at the end (inserted, updated, skipped, badDate) and the database, or the error
  with which the run fails.
\<close>

definition main :: "sheet_row list \<Rightarrow> database \<Rightarrow> etl_error + (nat \<times> nat \<times> nat \<times> nat) \<times> database" where
  "main rows d =
     (case main_loop rows \<lparr>inserted = 0, updated = 0, skipped = 0, badDate = 0, db = d\<rparr> of
        Inl e \<Rightarrow> Inl e
      | Inr st \<Rightarrow> Inr ((inserted st, updated st, skipped st, badDate st), db st))"

definition empty_dim :: dim_table where
  "empty_dim = \<lparr>dim_rows = [], dim_serial = 0\<rparr>"

definition empty_db :: database where
  "empty_db = \<lparr>dim_instructor = empty_dim, dim_class = empty_dim, dim_domain = empty_dim,
                dim_type = empty_dim, fact_session = [], sessions_made = 0\<rparr>"

section \<open>Notions used in the proofs\<close>

text \<open>
  The code unit before the position reached after reading \<open>w\<close>; a word that matches a
  literal; and what the expressions of the validator say in terms of the string: it starts,
  after white space, with WITH or SELECT in any case and one white space; a keyword in any
  case followed by white space stands at a word boundary.
\<close>

definition lastp :: "nat option \<Rightarrow> jsstring \<Rightarrow> nat option" where
  "lastp p w = (if w = [] then p else Some (last w))"

definition lit_ok :: "bool \<Rightarrow> jsstring \<Rightarrow> jsstring \<Rightarrow> bool" where
  "lit_ok ic kw w = list_all2 (\<lambda>k c. atom_ok ic (AChar k) c) kw w"

definition kw_prefix :: "jsstring \<Rightarrow> bool" where
  "kw_prefix t \<longleftrightarrow>
     (\<exists>ws w c rest. t = ws @ w @ c # rest \<and> (\<forall>x\<in>set ws. isWhiteSpace x)
        \<and> (lit_ok True (js ''WITH'') w \<or> lit_ok True (js ''SELECT'') w) \<and> isWhiteSpace c)"

definition kw_occurs :: "jsstring \<Rightarrow> jsstring \<Rightarrow> bool" where
  "kw_occurs kw t \<longleftrightarrow>
     (\<exists>pre w c rest. t = pre @ w @ c # rest \<and> lit_ok True kw w \<and> isWhiteSpace c
        \<and> wordAt (lastp None pre) \<noteq> wordAt (peek (w @ c # rest)))"


text \<open>A row of the sheet with every field present, from which the examples are made.\<close>

definition example_row :: sheet_row where
  "example_row =
     \<lparr>r_topic = js ''T1'', r_type = js ''Live Class'', r_domain = js ''Backend'',
      r_clazz = js ''C1'', r_instr = js ''Ann'', r_pstDate = Some (2025, 1, 4),
      r_average = Some 4, r_responses = Some 20, r_attended = Some 40, r_ratedPct = Some 50\<rparr>"

text \<open>
  For the retry policy of the generator: an attempt failed when its \<open>try\<close> block threw,
  with the message of the error; the service was unavailable when the error has status
  503. \<open>attempt_events\<close> is what one failed attempt adds to the trace (the call, and the
  wait of 2000 ms times the attempt number when the service was unavailable and an attempt
  is left), \<open>attempts_trace\<close> the trace of the first \<open>n\<close> attempts when all failed.
\<close>

definition failed :: "groq_result \<Rightarrow> bool" where
  "failed r = (case sql_attempt r of Inl e \<Rightarrow> True | Inr sql \<Rightarrow> False)"

definition failure_message :: "groq_result \<Rightarrow> jsstring" where
  "failure_message r = (case sql_attempt r of Inl (status, msg) \<Rightarrow> msg | Inr sql \<Rightarrow> [])"

definition generated :: "groq_result \<Rightarrow> jsstring" where
  "generated r = (case sql_attempt r of Inl e \<Rightarrow> [] | Inr sql \<Rightarrow> sql)"

definition unavailable :: "groq_result \<Rightarrow> bool" where
  "unavailable r = (case sql_attempt r of Inl (status, msg) \<Rightarrow> status = Some 503 | Inr sql \<Rightarrow> False)"

definition attempt_events :: "(nat \<Rightarrow> groq_result) \<Rightarrow> nat \<Rightarrow> nat \<Rightarrow> event list" where
  "attempt_events gen maxRetries k =
     GroqCreate model_sql
       # (if unavailable (gen k) \<and> k < maxRetries then [Delay (k * 2000)] else [])"

definition attempts_trace :: "(nat \<Rightarrow> groq_result) \<Rightarrow> nat \<Rightarrow> nat \<Rightarrow> nat \<Rightarrow> event list" where
  "attempts_trace gen maxRetries a n = concat (map (attempt_events gen maxRetries) [a..<Suc n])"

text \<open>
  The claim on retries as the specification words it: every attempt that was followed by
  another one had failed because the service was unavailable. The calls are counted in the
  trace of a run that starts in the empty world.
\<close>

definition groq_calls :: "event list \<Rightarrow> nat" where
  "groq_calls tr = length (filter (\<lambda>e. case e of GroqCreate m \<Rightarrow> True | _ \<Rightarrow> False) tr)"

definition retries_only_when_unavailable :: "(nat \<Rightarrow> groq_result) \<Rightarrow> nat \<Rightarrow> bool" where
  "retries_only_when_unavailable gen maxRetries =
     (let calls = groq_calls (trace (snd (getAiSql gen JNull maxRetries \<lparr>trace = [], leased = 0\<rparr>)))
      in list_all (\<lambda>k. unavailable (gen k)) [1..<calls])"

text \<open>Services for the examples: one that answers with a bare code fence; one that
  rejects the first call with status 401 and then answers; one that is always
  unavailable.\<close>

definition gen_fence_only :: "nat \<Rightarrow> groq_result" where
  "gen_fence_only k = Completion (Some fence)"

definition gen_401_then_ok :: "nat \<Rightarrow> groq_result" where
  "gen_401_then_ok k =
     (if k = 1 then ApiError (Some 401) (js ''Invalid API Key'')
      else Completion (Some (js ''SELECT 1'')))"

definition gen_unavailable :: "nat \<Rightarrow> groq_result" where
  "gen_unavailable k = ApiError (Some 503) (js ''Service unavailable'')"

text \<open>Databases for the examples: a query that the database rejects, and one that
  returns one row.\<close>

definition run_syntax_error :: "jsstring \<Rightarrow> jsval list \<Rightarrow> jsstring + nat list" where
  "run_syntax_error sql params = Inl (js ''syntax error'')"

definition run_one_row :: "jsstring \<Rightarrow> jsval list \<Rightarrow> jsstring + nat list" where
  "run_one_row sql params = Inr [1]"

text \<open>A stored fact row, and a proposed row with the same natural key in which every
  other column differs.\<close>

definition stored_fact :: fact_row where
  "stored_fact =
     \<lparr>session_id = 1, topic_code = Some (js ''T1''), type_id = 1, domain_id = 1, class_id = 1,
      instructor_id = 1, session_ts_utc = (2025, 1, 4), pst_date = (2025, 1, 4),
      pst_year = 2025, pst_month = 1, pst_quarter = 1, pst_month_start = (2025, 1, 1),
      average = Some 4, responses = Some 20, students_attended = Some 40,
      rated_pct = Some 50\<rparr>"

definition proposed_fact :: fact_row where
  "proposed_fact =
     \<lparr>session_id = 2, topic_code = Some (js ''T1''), type_id = 1, domain_id = 1, class_id = 1,
      instructor_id = 1, session_ts_utc = (1999, 9, 9), pst_date = (2025, 1, 4),
      pst_year = 1999, pst_month = 9, pst_quarter = 3, pst_month_start = (1999, 9, 1),
      average = Some 5, responses = Some 30, students_attended = Some 60,
      rated_pct = Some 50\<rparr>"

section \<open>Properties of the matcher\<close>

lemma trim_decomp:
  "\<exists>l r. s = l @ trim s @ r \<and> (\<forall>c\<in>set l. isWhiteSpace c) \<and> (\<forall>c\<in>set r. isWhiteSpace c)"
proof -
  let ?d = "dropWhile isWhiteSpace s"
  have 1: "s = takeWhile isWhiteSpace s @ ?d" by simp
  have "?d = rev (takeWhile isWhiteSpace (rev ?d) @ dropWhile isWhiteSpace (rev ?d))"
    by (simp only: takeWhile_dropWhile_id rev_rev_ident)
  then have 2: "?d = trim s @ rev (takeWhile isWhiteSpace (rev ?d))"
    by (simp only: rev_append trim_def)
  have 3: "\<forall>c\<in>set (takeWhile isWhiteSpace s). isWhiteSpace c"
    by (meson set_takeWhileD)
  have 4: "\<forall>c\<in>set (rev (takeWhile isWhiteSpace (rev ?d))). isWhiteSpace c"
    by (metis set_rev set_takeWhileD)
  from 1 2 have "s = takeWhile isWhiteSpace s @ trim s @ rev (takeWhile isWhiteSpace (rev ?d))"
    by metis
  with 3 4 show ?thesis by blast
qed

lemma lastp_Cons: "lastp p (c # w) = lastp (Some c) w"
  by (simp add: lastp_def)

lemma lastp_append: "lastp p (u @ w) = lastp (lastp p u) w"
  by (simp add: lastp_def)

lemma rsearch_iff:
  "rsearch ic r p s \<longleftrightarrow> (\<exists>pre suf. s = pre @ suf \<and> rmatch ic r (lastp p pre, suf) \<noteq> [])"
proof (induction s arbitrary: p)
  case Nil
  then show ?case by (simp add: lastp_def)
next
  case (Cons c cs)
  show ?case
  proof
    assume "rsearch ic r p (c # cs)"
    then consider "rmatch ic r (p, c # cs) \<noteq> []" | "rsearch ic r (Some c) cs" by auto
    then show "\<exists>pre suf. c # cs = pre @ suf \<and> rmatch ic r (lastp p pre, suf) \<noteq> []"
    proof cases
      case 1
      then have "c # cs = [] @ (c # cs) \<and> rmatch ic r (lastp p [], c # cs) \<noteq> []"
        by (simp add: lastp_def)
      then show ?thesis by blast
    next
      case 2
      then obtain pre suf where "cs = pre @ suf" "rmatch ic r (lastp (Some c) pre, suf) \<noteq> []"
        using Cons.IH by blast
      then have "c # cs = (c # pre) @ suf \<and> rmatch ic r (lastp p (c # pre), suf) \<noteq> []"
        by (simp add: lastp_Cons)
      then show ?thesis by blast
    qed
  next
    assume "\<exists>pre suf. c # cs = pre @ suf \<and> rmatch ic r (lastp p pre, suf) \<noteq> []"
    then obtain pre suf where ps: "c # cs = pre @ suf" "rmatch ic r (lastp p pre, suf) \<noteq> []"
      by blast
    show "rsearch ic r p (c # cs)"
    proof (cases pre)
      case Nil
      with ps have "suf = c # cs" by simp
      with ps Nil have "rmatch ic r (p, c # cs) \<noteq> []" by (simp add: lastp_def)
      then show ?thesis by simp
    next
      case (Cons x xs)
      with ps have "cs = xs @ suf" "rmatch ic r (lastp (Some c) xs, suf) \<noteq> []"
        by (simp_all add: lastp_Cons)
      then have "rsearch ic r (Some c) cs" using Cons.IH by blast
      then show ?thesis by simp
    qed
  qed
qed

lemma set_mstar:
  "set (mstar ic a p s) =
     {(lastp p w, rest) | w rest. s = w @ rest \<and> (\<forall>c\<in>set w. atom_ok ic a c)}"
proof (induction s arbitrary: p)
  case Nil
  then show ?case by (auto simp: lastp_def)
next
  case (Cons c cs)
  show ?case
  proof (rule set_eqI, rule iffI)
    fix x assume "x \<in> set (mstar ic a p (c # cs))"
    then consider "atom_ok ic a c" "x \<in> set (mstar ic a (Some c) cs)" | "x = (p, c # cs)"
      by (auto split: if_splits)
    then show "x \<in> {(lastp p w, rest) | w rest. c # cs = w @ rest \<and> (\<forall>c\<in>set w. atom_ok ic a c)}"
    proof cases
      case 1
      then obtain w rest where "x = (lastp (Some c) w, rest)" "cs = w @ rest" "\<forall>c\<in>set w. atom_ok ic a c"
        using Cons.IH by auto
      with 1 have "x = (lastp p (c # w), rest) \<and> c # cs = (c # w) @ rest \<and> (\<forall>d\<in>set (c # w). atom_ok ic a d)"
        by (simp add: lastp_Cons)
      then show ?thesis by blast
    next
      case 2
      then have "x = (lastp p [], c # cs) \<and> c # cs = [] @ (c # cs) \<and> (\<forall>d\<in>set ([]::nat list). atom_ok ic a d)"
        by (simp add: lastp_def)
      then show ?thesis by blast
    qed
  next
    fix x assume "x \<in> {(lastp p w, rest) | w rest. c # cs = w @ rest \<and> (\<forall>c\<in>set w. atom_ok ic a c)}"
    then obtain w rest where x: "x = (lastp p w, rest)" "c # cs = w @ rest" "\<forall>c\<in>set w. atom_ok ic a c"
      by blast
    show "x \<in> set (mstar ic a p (c # cs))"
    proof (cases w)
      case Nil
      with x have "x = (p, c # cs)" by (simp add: lastp_def)
      then show ?thesis by simp
    next
      case (Cons y ys)
      with x have "y = c" "cs = ys @ rest" "atom_ok ic a c" "\<forall>d\<in>set ys. atom_ok ic a d" "x = (lastp (Some c) ys, rest)"
        by (auto simp: lastp_Cons)
      then have "x \<in> set (mstar ic a (Some c) cs)" using Cons.IH by blast
      with \<open>atom_ok ic a c\<close> show ?thesis by simp
    qed
  qed
qed

lemma mstar_nonempty: "mstar ic a p s \<noteq> []"
  by (cases s) auto

lemma rmatch_Plus_nonempty:
  "rmatch ic (Plus a) (p, s) \<noteq> [] \<longleftrightarrow> (\<exists>c rest. s = c # rest \<and> atom_ok ic a c)"
  by (cases s) (auto simp: mstar_nonempty)

lemma set_rmatch_lit:
  "set (rmatch ic (lit kw) (p, s)) = {(lastp p w, rest) | w rest. s = w @ rest \<and> lit_ok ic kw w}"
proof (induction kw arbitrary: p s)
  case Nil
  then show ?case by (auto simp: lit_ok_def lastp_def)
next
  case (Cons k ks)
  show ?case
  proof (cases s)
    case Nil
    then show ?thesis by (auto simp: lit_ok_def)
  next
    case (Cons c cs)
    show ?thesis
    proof (cases "atom_ok ic (AChar k) c")
      case False
      with Cons show ?thesis by (auto simp: lit_ok_def list_all2_Cons1)
    next
      case True
      have "set (rmatch ic (lit (k # ks)) (p, s)) = set (rmatch ic (lit ks) (Some c, cs))"
        using True Cons by simp
      also have "\<dots> = {(lastp (Some c) w, rest) | w rest. cs = w @ rest \<and> lit_ok ic ks w}"
        by (rule Cons.IH)
      also have "\<dots> = {(lastp p w, rest) | w rest. s = w @ rest \<and> lit_ok ic (k # ks) w}"
      proof (rule set_eqI, rule iffI)
        fix x assume "x \<in> {(lastp (Some c) w, rest) | w rest. cs = w @ rest \<and> lit_ok ic ks w}"
        then obtain w rest where "x = (lastp (Some c) w, rest)" "cs = w @ rest" "lit_ok ic ks w" by blast
        then have "x = (lastp p (c # w), rest) \<and> s = (c # w) @ rest \<and> lit_ok ic (k # ks) (c # w)"
          using True Cons by (simp add: lastp_Cons lit_ok_def)
        then show "x \<in> {(lastp p w, rest) | w rest. s = w @ rest \<and> lit_ok ic (k # ks) w}" by blast
      next
        fix x assume "x \<in> {(lastp p w, rest) | w rest. s = w @ rest \<and> lit_ok ic (k # ks) w}"
        then obtain w rest where x: "x = (lastp p w, rest)" "s = w @ rest" "lit_ok ic (k # ks) w" by blast
        then obtain y ys where w: "w = y # ys" "lit_ok ic ks ys"
          by (auto simp: lit_ok_def list_all2_Cons1)
        with x Cons have "x = (lastp (Some c) ys, rest) \<and> cs = ys @ rest \<and> lit_ok ic ks ys"
          by (simp add: lastp_Cons)
        then show "x \<in> {(lastp (Some c) w, rest) | w rest. cs = w @ rest \<and> lit_ok ic ks w}" by blast
      qed
      finally show ?thesis .
    qed
  qed
qed

lemma rmatch_Seq_nonempty:
  "rmatch ic (Seq r1 r2) st \<noteq> [] \<longleftrightarrow> (\<exists>st'\<in>set (rmatch ic r1 st). rmatch ic r2 st' \<noteq> [])"
  by auto

lemma rmatch_lit_Plus:
  "rmatch ic (Seq (lit kw) (Plus a)) (p, s) \<noteq> [] \<longleftrightarrow>
     (\<exists>w c rest. s = w @ c # rest \<and> lit_ok ic kw w \<and> atom_ok ic a c)"
proof
  assume "rmatch ic (Seq (lit kw) (Plus a)) (p, s) \<noteq> []"
  then obtain st' where "st' \<in> set (rmatch ic (lit kw) (p, s))" "rmatch ic (Plus a) st' \<noteq> []"
    unfolding rmatch_Seq_nonempty by blast
  then obtain w rest where "s = w @ rest" "lit_ok ic kw w" "rmatch ic (Plus a) (lastp p w, rest) \<noteq> []"
    unfolding set_rmatch_lit by blast
  then show "\<exists>w c rest. s = w @ c # rest \<and> lit_ok ic kw w \<and> atom_ok ic a c"
    unfolding rmatch_Plus_nonempty by blast
next
  assume "\<exists>w c rest. s = w @ c # rest \<and> lit_ok ic kw w \<and> atom_ok ic a c"
  then obtain w c rest where h: "s = w @ c # rest" "lit_ok ic kw w" "atom_ok ic a c" by blast
  then have "(lastp p w, c # rest) \<in> set (rmatch ic (lit kw) (p, s))"
    unfolding set_rmatch_lit by blast
  moreover have "rmatch ic (Plus a) (lastp p w, c # rest) \<noteq> []"
    unfolding rmatch_Plus_nonempty using h by blast
  ultimately show "rmatch ic (Seq (lit kw) (Plus a)) (p, s) \<noteq> []"
    unfolding rmatch_Seq_nonempty by blast
qed


lemma rmatch_Seq_Alt_nonempty:
  "rmatch ic (Seq (Alt r1 r2) r3) st \<noteq> [] \<longleftrightarrow>
     rmatch ic (Seq r1 r3) st \<noteq> [] \<or> rmatch ic (Seq r2 r3) st \<noteq> []"
  by auto

lemma rmatch_Seq_Bol_nonempty:
  "rmatch ic (Seq Bol r) (p, s) \<noteq> [] \<longleftrightarrow> p = None \<and> rmatch ic r (None, s) \<noteq> []"
  by auto

lemma rmatch_Seq_WordB_nonempty:
  "rmatch ic (Seq WordB r) (p, s) \<noteq> [] \<longleftrightarrow> wordAt p \<noteq> wordAt (peek s) \<and> rmatch ic r (p, s) \<noteq> []"
  by auto

lemma rmatch_Seq_Star_nonempty:
  "rmatch ic (Seq (Star a) r) (p, s) \<noteq> [] \<longleftrightarrow>
     (\<exists>w rest. s = w @ rest \<and> (\<forall>c\<in>set w. atom_ok ic a c) \<and> rmatch ic r (lastp p w, rest) \<noteq> [])"
proof -
  have "rmatch ic (Seq (Star a) r) (p, s) \<noteq> [] \<longleftrightarrow>
          (\<exists>st'\<in>set (mstar ic a p s). rmatch ic r st' \<noteq> [])"
    by auto
  also have "\<dots> \<longleftrightarrow> (\<exists>w rest. s = w @ rest \<and> (\<forall>c\<in>set w. atom_ok ic a c) \<and> rmatch ic r (lastp p w, rest) \<noteq> [])"
    unfolding set_mstar by blast
  finally show ?thesis .
qed

lemma lastp_None_iff: "lastp None pre = None \<longleftrightarrow> pre = []"
  by (simp add: lastp_def)

lemma rtest_rx_starts_iff: "rtest True rx_starts t \<longleftrightarrow> kw_prefix t"
proof -
  define X where
    "X = Seq (Star ASpace) (Seq (Alt (lit (js ''WITH'')) (lit (js ''SELECT''))) (Plus ASpace))"
  have "rtest True rx_starts t \<longleftrightarrow>
          (\<exists>pre suf. t = pre @ suf \<and> rmatch True (Seq Bol X) (lastp None pre, suf) \<noteq> [])"
    by (simp only: rtest_def rsearch_iff rx_starts_def X_def)
  also have "\<dots> \<longleftrightarrow> (\<exists>pre suf. t = pre @ suf \<and> pre = [] \<and> rmatch True X (None, suf) \<noteq> [])"
    by (simp only: rmatch_Seq_Bol_nonempty lastp_None_iff)
  also have "\<dots> \<longleftrightarrow> rmatch True X (None, t) \<noteq> []"
    by (metis append_Nil)
  also have "\<dots> \<longleftrightarrow>
      (\<exists>w rest. t = w @ rest \<and> (\<forall>c\<in>set w. isWhiteSpace c) \<and>
         ((\<exists>w' c rest'. rest = w' @ c # rest' \<and> lit_ok True (js ''WITH'') w' \<and> isWhiteSpace c)
          \<or> (\<exists>w' c rest'. rest = w' @ c # rest' \<and> lit_ok True (js ''SELECT'') w' \<and> isWhiteSpace c)))"
    by (simp only: X_def rmatch_Seq_Star_nonempty rmatch_Seq_Alt_nonempty rmatch_lit_Plus
        atom_ok.simps)
  also have "\<dots> \<longleftrightarrow> kw_prefix t"
    unfolding kw_prefix_def by blast
  finally show ?thesis .
qed

lemma rtest_word_kw_iff:
  "rtest True (Seq WordB (Seq (lit kw) (Plus ASpace))) t \<longleftrightarrow> kw_occurs kw t"
proof -
  have "rtest True (Seq WordB (Seq (lit kw) (Plus ASpace))) t \<longleftrightarrow>
          (\<exists>pre suf. t = pre @ suf \<and>
             rmatch True (Seq WordB (Seq (lit kw) (Plus ASpace))) (lastp None pre, suf) \<noteq> [])"
    by (simp only: rtest_def rsearch_iff)
  also have "\<dots> \<longleftrightarrow>
      (\<exists>pre suf. t = pre @ suf \<and> wordAt (lastp None pre) \<noteq> wordAt (peek suf) \<and>
         (\<exists>w c rest. suf = w @ c # rest \<and> lit_ok True kw w \<and> isWhiteSpace c))"
    by (simp only: rmatch_Seq_WordB_nonempty rmatch_lit_Plus atom_ok.simps)
  also have "\<dots> \<longleftrightarrow> kw_occurs kw t"
    unfolding kw_occurs_def by blast
  finally show ?thesis .
qed

lemma wordAt_ws: "isWhiteSpace c \<Longrightarrow> \<not> isWordChar c"
  by (auto simp: isWhiteSpace_def isWordChar_def)

lemma wordAt_lastp_ws:
  assumes "\<forall>c\<in>set l. isWhiteSpace c"
  shows "wordAt (lastp None (l @ pre)) = wordAt (lastp None pre)"
proof (cases "pre = []")
  case False
  then show ?thesis by (simp add: lastp_def)
next
  case True
  show ?thesis
  proof (cases "l = []")
    case True
    with \<open>pre = []\<close> show ?thesis by simp
  next
    case False
    then have "isWhiteSpace (last l)" using assms by simp
    then have "\<not> isWordChar (last l)" by (rule wordAt_ws)
    with False \<open>pre = []\<close> show ?thesis by (simp add: lastp_def wordAt_def)
  qed
qed

lemma kw_prefix_trim: assumes "kw_prefix (trim s)" shows "kw_prefix s"
proof -
  obtain l r where s: "s = l @ trim s @ r" and l: "\<forall>c\<in>set l. isWhiteSpace c"
    using trim_decomp by blast
  from assms obtain ws w c rest where t: "trim s = ws @ w @ c # rest"
    and ws: "\<forall>x\<in>set ws. isWhiteSpace x"
    and w: "lit_ok True (js ''WITH'') w \<or> lit_ok True (js ''SELECT'') w" and c: "isWhiteSpace c"
    unfolding kw_prefix_def by blast
  from s t have "s = (l @ ws) @ w @ c # (rest @ r)" by simp
  moreover from l ws have "\<forall>x\<in>set (l @ ws). isWhiteSpace x" by auto
  ultimately show ?thesis unfolding kw_prefix_def using w c by blast
qed

lemma kw_occurs_trim: assumes "kw_occurs kw (trim s)" shows "kw_occurs kw s"
proof -
  obtain l r where s: "s = l @ trim s @ r" and l: "\<forall>c\<in>set l. isWhiteSpace c"
    using trim_decomp by blast
  from assms obtain pre w c rest where t: "trim s = pre @ w @ c # rest"
    and w: "lit_ok True kw w" and c: "isWhiteSpace c"
    and b: "wordAt (lastp None pre) \<noteq> wordAt (peek (w @ c # rest))"
    unfolding kw_occurs_def by blast
  from s t have 1: "s = (l @ pre) @ w @ c # (rest @ r)" by simp
  have 2: "wordAt (lastp None (l @ pre)) = wordAt (lastp None pre)"
    using l by (rule wordAt_lastp_ws)
  have 3: "peek (w @ c # (rest @ r)) = peek (w @ c # rest)"
    by (cases w) (simp_all add: peek_def)
  from b 2 3 have "wordAt (lastp None (l @ pre)) \<noteq> wordAt (peek (w @ c # (rest @ r)))" by simp
  with 1 w c show ?thesis unfolding kw_occurs_def by blast
qed

lemma trim_Nil: "trim [] = []"
  by (simp add: trim_def)

lemma isValidSqlQuery_JStr:
  "isValidSqlQuery (JStr s) \<longleftrightarrow>
     trim s \<noteq> [] \<and> rtest True rx_starts (trim s)
       \<and> (rtest True rx_from (trim s) \<or> rtest True rx_select (trim s))"
proof (cases "s = []")
  case True
  then show ?thesis by (simp add: isValidSqlQuery_def trim_Nil)
next
  case False
  then show ?thesis by (simp add: isValidSqlQuery_def Let_def)
qed

lemma isValidSqlQuery_not_string:
  "\<not> (\<exists>s. v = JStr s \<and> s \<noteq> []) \<Longrightarrow> \<not> isValidSqlQuery v"
  by (cases v) (simp_all add: isValidSqlQuery_def)

section \<open>The validator\<close>

text \<open>
  C1. The validator rejects every input that is not a non-empty string, every string that
  does not match the prefix expression, and every string that matches it and in which
  neither the FROM expression nor the SELECT expression of the code has a match; it accepts
  the two strings of the specification.
\<close>

theorem isValidSqlQuery_shape:
  "(\<not> (\<exists>s. v = JStr s \<and> s \<noteq> []) \<longrightarrow> \<not> isValidSqlQuery v)
   \<and> (\<not> rtest True rx_starts s1 \<longrightarrow> \<not> isValidSqlQuery (JStr s1))
   \<and> (rtest True rx_starts s2 \<and> \<not> rtest True rx_from s2 \<and> \<not> rtest True rx_select s2
        \<longrightarrow> \<not> isValidSqlQuery (JStr s2))
   \<and> isValidSqlQuery (JStr (js ''SELECT 1''))
   \<and> isValidSqlQuery (JStr (js ''WITH x AS (SELECT 1) SELECT * FROM x''))"
proof -
  have a: "\<not> (\<exists>s. v = JStr s \<and> s \<noteq> []) \<longrightarrow> \<not> isValidSqlQuery v"
    using isValidSqlQuery_not_string by blast
  have b: "\<not> rtest True rx_starts s1 \<longrightarrow> \<not> isValidSqlQuery (JStr s1)"
    unfolding isValidSqlQuery_JStr rtest_rx_starts_iff using kw_prefix_trim by blast
  have c: "rtest True rx_starts s2 \<and> \<not> rtest True rx_from s2 \<and> \<not> rtest True rx_select s2
        \<longrightarrow> \<not> isValidSqlQuery (JStr s2)"
    unfolding isValidSqlQuery_JStr rx_from_def rx_select_def rtest_word_kw_iff
    using kw_occurs_trim by blast
  have d: "isValidSqlQuery (JStr (js ''SELECT 1''))"
    by (simp add: isValidSqlQuery_def js_def trim_def isWhiteSpace_def rtest_def rx_starts_def
        rx_from_def rx_select_def canonicalize_def wordAt_def peek_def isWordChar_def)
  have e: "isValidSqlQuery (JStr (js ''WITH x AS (SELECT 1) SELECT * FROM x''))"
    by (simp add: isValidSqlQuery_def js_def trim_def isWhiteSpace_def rtest_def rx_starts_def
        rx_from_def rx_select_def canonicalize_def wordAt_def peek_def isWordChar_def)
  from a b c d e show ?thesis by blast
qed

theorem isValidSqlQuery_shape_witness:
  "\<not> (\<exists>s. JNum 7 = JStr s \<and> s \<noteq> []) \<and> \<not> isValidSqlQuery (JNum 7)
   \<and> \<not> rtest True rx_starts (js ''DELETE FROM t'')
   \<and> \<not> isValidSqlQuery (JStr (js ''DELETE FROM t''))
   \<and> rtest True rx_starts (js ''WITH x AS y'') \<and> \<not> rtest True rx_from (js ''WITH x AS y'')
   \<and> \<not> rtest True rx_select (js ''WITH x AS y'')
   \<and> \<not> isValidSqlQuery (JStr (js ''WITH x AS y''))"
  using isValidSqlQuery_shape [of "JNum 7" "js ''DELETE FROM t''" "js ''WITH x AS y''"]
  by (simp add: js_def rtest_def rx_starts_def rx_from_def rx_select_def isWhiteSpace_def
      canonicalize_def wordAt_def peek_def isWordChar_def)

text \<open>
  The same for a reader who takes "no occurrence of a keyword" as "the letters of the
  keyword occur nowhere, in any case": such a string has no match of the expression of the
  code either.
\<close>

lemma kw_occurs_letters:
  assumes "kw_occurs kw t" shows "rtest True (lit kw) t"
proof -
  from assms obtain pre w c rest where t: "t = pre @ w @ c # rest" and w: "lit_ok True kw w"
    unfolding kw_occurs_def by blast
  have "(lastp (lastp None pre) w, c # rest) \<in> set (rmatch True (lit kw) (lastp None pre, w @ c # rest))"
    unfolding set_rmatch_lit using w by blast
  then have "rmatch True (lit kw) (lastp None pre, w @ c # rest) \<noteq> []"
    by (metis empty_iff empty_set)
  with t show ?thesis
    unfolding rtest_def rsearch_iff by blast
qed

lemma isValidSqlQuery_no_keyword_letters:
  assumes "\<not> rtest True (lit (js ''FROM'')) s" and "\<not> rtest True (lit (js ''SELECT'')) s"
  shows "\<not> isValidSqlQuery (JStr s)"
proof -
  from assms have "\<not> kw_occurs (js ''FROM'') s" "\<not> kw_occurs (js ''SELECT'') s"
    using kw_occurs_letters by blast+
  then have "\<not> kw_occurs (js ''FROM'') (trim s)" "\<not> kw_occurs (js ''SELECT'') (trim s)"
    using kw_occurs_trim by blast+
  then show ?thesis
    unfolding isValidSqlQuery_JStr rx_from_def rx_select_def rtest_word_kw_iff by blast
qed

section \<open>The generator\<close>

lemma getAiSql_from_all_fail:
  assumes "a \<le> M" and "\<forall>k. a \<le> k \<and> k \<le> M \<longrightarrow> failed (gen k)"
  shows "getAiSql_from gen M a w =
           (Throw (js ''Failed to generate SQL after '' @ show_nat M @ js '' attempts: ''
                     @ failure_message (gen M)),
            w\<lparr>trace := trace w @ attempts_trace gen M a M\<rparr>)"
  using assms
proof (induction "M - a" arbitrary: a w)
  case 0
  then have aM: "a = M" by simp
  from 0 have "failed (gen M)" using aM by simp
  then obtain st msg where e: "sql_attempt (gen M) = Inl (st, msg)"
    by (auto simp: failed_def split: sum.splits)
  show ?case
    unfolding aM
    by (subst getAiSql_from.simps)
       (simp add: e failure_message_def attempts_trace_def attempt_events_def emit_def)
next
  case (Suc d)
  then have lt: "a < M" by simp
  from Suc.prems have "failed (gen a)" by simp
  then obtain st msg where e: "sql_attempt (gen a) = Inl (st, msg)"
    by (auto simp: failed_def split: sum.splits)
  have d: "d = M - Suc a" using Suc.hyps by simp
  have le: "Suc a \<le> M" using lt by simp
  have f: "\<forall>k. Suc a \<le> k \<and> k \<le> M \<longrightarrow> failed (gen k)" using Suc.prems by simp
  note IH = Suc.hyps(1) [OF d le f]
  have upt: "[a..<Suc M] = a # [Suc a..<Suc M]"
    using lt by (simp add: upt_conv_Cons)
  have tr: "attempts_trace gen M a M = attempt_events gen M a @ attempts_trace gen M (Suc a) M"
    unfolding attempts_trace_def by (subst upt) simp
  have ne: "a \<noteq> M" "a \<le> M" using lt by simp_all
  show ?case
  proof (cases "st = Some 503")
    case True
    then have u: "unavailable (gen a)" by (simp add: unavailable_def e)
    show ?thesis
      by (subst getAiSql_from.simps)
         (simp add: e True lt le ne IH tr attempt_events_def emit_def u)
  next
    case False
    then have u: "\<not> unavailable (gen a)" by (simp add: unavailable_def e)
    show ?thesis
      by (subst getAiSql_from.simps)
         (simp add: e False lt le ne IH tr attempt_events_def emit_def u)
  qed
qed

lemma getAiSql_from_first_success:
  assumes "a \<le> n" and "n \<le> M" and "\<forall>k. a \<le> k \<and> k < n \<longrightarrow> failed (gen k)"
    and "\<not> failed (gen n)"
  shows "getAiSql_from gen M a w =
           (Return (Some (generated (gen n))),
            w\<lparr>trace := trace w @ concat (map (attempt_events gen M) [a..<n])
                         @ [GroqCreate model_sql]\<rparr>)"
  using assms
proof (induction "n - a" arbitrary: a w)
  case 0
  then have an: "a = n" by simp
  from 0 obtain sql where e: "sql_attempt (gen n) = Inr sql"
    by (auto simp: failed_def split: sum.splits)
  show ?case
    unfolding an using \<open>n \<le> M\<close>
    by (subst getAiSql_from.simps) (simp add: e generated_def emit_def)
next
  case (Suc d)
  then have lt: "a < n" by simp
  then have ltM: "a < M" using Suc.prems by simp
  from Suc.prems lt have "failed (gen a)" by simp
  then obtain st msg where e: "sql_attempt (gen a) = Inl (st, msg)"
    by (auto simp: failed_def split: sum.splits)
  have d: "d = n - Suc a" using Suc.hyps by simp
  have le: "Suc a \<le> n" using lt by simp
  have f: "\<forall>k. Suc a \<le> k \<and> k < n \<longrightarrow> failed (gen k)" using Suc.prems by simp
  note IH = Suc.hyps(1) [OF d le \<open>n \<le> M\<close> f \<open>\<not> failed (gen n)\<close>]
  have upt: "[a..<n] = a # [Suc a..<n]"
    using lt by (simp add: upt_conv_Cons)
  have tr: "concat (map (attempt_events gen M) [a..<n])
              = attempt_events gen M a @ concat (map (attempt_events gen M) [Suc a..<n])"
    by (subst upt) simp
  have leM: "Suc a \<le> M" using ltM by simp
  have ne: "a \<noteq> M" "a \<le> M" using ltM by simp_all
  show ?case
  proof (cases "st = Some 503")
    case True
    then have u: "unavailable (gen a)" by (simp add: unavailable_def e)
    show ?thesis
      by (subst getAiSql_from.simps)
         (simp add: e True ltM leM ne IH tr attempt_events_def emit_def u)
  next
    case False
    then have u: "\<not> unavailable (gen a)" by (simp add: unavailable_def e)
    show ?thesis
      by (subst getAiSql_from.simps)
         (simp add: e False ltM leM ne IH tr attempt_events_def emit_def u)
  qed
qed

text \<open>
  C5, as amended. With a bound of at least one attempt: when every attempt up to the bound
  fails, whatever the failure, the generator makes exactly that many calls, waits 2000 ms
  times the attempt number after a failed attempt only when the service was unavailable
  (status 503) and an attempt is left, and throws a generation failure that carries the
  last message; when attempt \<open>n\<close> is the first that succeeds, every earlier failure was
  retried in the same way and the cleaned response of attempt \<open>n\<close> is returned.
\<close>

theorem getAiSql_retry_policy:
  "(1 \<le> maxRetries \<and> (\<forall>k. 1 \<le> k \<and> k \<le> maxRetries \<longrightarrow> failed (gen k)) \<longrightarrow>
      getAiSql gen userQuery maxRetries w =
        (Throw (js ''Failed to generate SQL after '' @ show_nat maxRetries @ js '' attempts: ''
                  @ failure_message (gen maxRetries)),
         w\<lparr>trace := trace w @ attempts_trace gen maxRetries 1 maxRetries\<rparr>))
   \<and> (1 \<le> n \<and> n \<le> maxRetries \<and> (\<forall>k. 1 \<le> k \<and> k < n \<longrightarrow> failed (gen k)) \<and> \<not> failed (gen n) \<longrightarrow>
      getAiSql gen userQuery maxRetries w =
        (Return (Some (generated (gen n))),
         w\<lparr>trace := trace w @ attempts_trace gen maxRetries 1 (n - 1) @ [GroqCreate model_sql]\<rparr>))"
proof (intro conjI impI)
  assume "1 \<le> maxRetries \<and> (\<forall>k. 1 \<le> k \<and> k \<le> maxRetries \<longrightarrow> failed (gen k))"
  then show "getAiSql gen userQuery maxRetries w =
        (Throw (js ''Failed to generate SQL after '' @ show_nat maxRetries @ js '' attempts: ''
                  @ failure_message (gen maxRetries)),
         w\<lparr>trace := trace w @ attempts_trace gen maxRetries 1 maxRetries\<rparr>)"
    unfolding getAiSql_def using getAiSql_from_all_fail [of 1 maxRetries gen w] by blast
next
  assume h: "1 \<le> n \<and> n \<le> maxRetries \<and> (\<forall>k. 1 \<le> k \<and> k < n \<longrightarrow> failed (gen k)) \<and> \<not> failed (gen n)"
  then have "Suc (n - 1) = n" by simp
  then have "attempts_trace gen maxRetries 1 (n - 1) = concat (map (attempt_events gen maxRetries) [1..<n])"
    by (simp add: attempts_trace_def)
  with h show "getAiSql gen userQuery maxRetries w =
        (Return (Some (generated (gen n))),
         w\<lparr>trace := trace w @ attempts_trace gen maxRetries 1 (n - 1) @ [GroqCreate model_sql]\<rparr>)"
    unfolding getAiSql_def using getAiSql_from_first_success [of 1 n maxRetries gen w] by simp
qed

theorem getAiSql_retry_policy_witness:
  "getAiSql gen_unavailable JNull 3 \<lparr>trace = [], leased = 0\<rparr> =
     (Throw (js ''Failed to generate SQL after 3 attempts: Service unavailable''),
      \<lparr>trace = [GroqCreate model_sql, Delay 2000, GroqCreate model_sql, Delay 4000,
                GroqCreate model_sql], leased = 0\<rparr>)
   \<and> getAiSql gen_401_then_ok JNull 3 \<lparr>trace = [], leased = 0\<rparr> =
     (Return (Some (js ''SELECT 1'')),
      \<lparr>trace = [GroqCreate model_sql, GroqCreate model_sql], leased = 0\<rparr>)"
proof -
  have f1: "\<forall>k. 1 \<le> k \<and> k \<le> 3 \<longrightarrow> failed (gen_unavailable k)"
    by (simp add: failed_def gen_unavailable_def sql_attempt_def)
  have m1: "failure_message (gen_unavailable 3) = js ''Service unavailable''"
    by (simp add: failure_message_def gen_unavailable_def sql_attempt_def)
  have u1: "\<And>k. unavailable (gen_unavailable k)"
    by (simp add: unavailable_def gen_unavailable_def sql_attempt_def)
  have t1: "attempts_trace gen_unavailable 3 (Suc 0) 3 =
      [GroqCreate model_sql, Delay 2000, GroqCreate model_sql, Delay 4000, GroqCreate model_sql]"
    by (simp add: attempts_trace_def attempt_events_def u1 upt_conv_Cons)
  have s3: "show_nat 3 = js ''3''"
    by (subst show_nat.simps) (simp add: js_def)
  have a: "getAiSql gen_unavailable JNull 3 \<lparr>trace = [], leased = 0\<rparr> =
     (Throw (js ''Failed to generate SQL after 3 attempts: Service unavailable''),
      \<lparr>trace = [GroqCreate model_sql, Delay 2000, GroqCreate model_sql, Delay 4000,
                GroqCreate model_sql], leased = 0\<rparr>)"
    using getAiSql_retry_policy [of 3 gen_unavailable JNull "\<lparr>trace = [], leased = 0\<rparr>" 1] f1
    by (simp add: m1 t1 s3 js_def)
  have ok: "sql_attempt (gen_401_then_ok 2) = Inr (js ''SELECT 1'')"
    by (simp add: gen_401_then_ok_def sql_attempt_def cleanup_def fence_def js_def trim_def
        isWhiteSpace_def)
  have f2: "\<forall>k. 1 \<le> k \<and> k < 2 \<longrightarrow> failed (gen_401_then_ok k)"
  proof (intro allI impI)
    fix k :: nat assume "1 \<le> k \<and> k < 2"
    then have "k = 1" by simp
    then show "failed (gen_401_then_ok k)"
      by (simp add: failed_def gen_401_then_ok_def sql_attempt_def)
  qed
  have n2: "\<not> failed (gen_401_then_ok 2)" by (simp add: failed_def ok)
  have g2: "generated (gen_401_then_ok 2) = js ''SELECT 1''" by (simp add: generated_def ok)
  have u2: "\<not> unavailable (gen_401_then_ok (Suc 0))"
    by (simp add: unavailable_def gen_401_then_ok_def sql_attempt_def)
  have t2: "attempts_trace gen_401_then_ok 3 (Suc 0) (Suc 0) = [GroqCreate model_sql]"
    by (simp add: attempts_trace_def attempt_events_def u2)
  have b: "getAiSql gen_401_then_ok JNull 3 \<lparr>trace = [], leased = 0\<rparr> =
     (Return (Some (js ''SELECT 1'')),
      \<lparr>trace = [GroqCreate model_sql, GroqCreate model_sql], leased = 0\<rparr>)"
    using getAiSql_retry_policy [of 3 gen_401_then_ok JNull "\<lparr>trace = [], leased = 0\<rparr>" 2] f2 n2
    by (simp add: g2 t2)
  from a b show ?thesis by blast
qed

lemma gen_401_then_ok_first: "sql_attempt (gen_401_then_ok (Suc 0)) = Inl (Some 401, js ''Invalid API Key'')"
  by (simp add: gen_401_then_ok_def sql_attempt_def)

lemma gen_401_then_ok_second: "sql_attempt (gen_401_then_ok 2) = Inr (js ''SELECT 1'')"
  by (simp add: gen_401_then_ok_def sql_attempt_def cleanup_def fence_def js_def trim_def
      isWhiteSpace_def)

lemma gen_401_then_ok_run:
  "getAiSql_from gen_401_then_ok 3 (Suc 0) \<lparr>trace = [], leased = 0\<rparr>
      = (Return (Some (js ''SELECT 1'')),
         \<lparr>trace = [GroqCreate model_sql, GroqCreate model_sql], leased = 0\<rparr>)"
proof -
  have f: "\<forall>k. Suc 0 \<le> k \<and> k < 2 \<longrightarrow> failed (gen_401_then_ok k)"
  proof (intro allI impI)
    fix k :: nat assume "Suc 0 \<le> k \<and> k < 2"
    then have "k = Suc 0" by simp
    then show "failed (gen_401_then_ok k)"
      by (simp add: failed_def gen_401_then_ok_first)
  qed
  have n: "\<not> failed (gen_401_then_ok 2)" by (simp add: failed_def gen_401_then_ok_second)
  have u: "\<not> unavailable (gen_401_then_ok (Suc 0))"
    by (simp add: unavailable_def gen_401_then_ok_first)
  have l: "[Suc 0..<2] = [Suc 0]" by (simp add: upt_conv_Cons)
  show ?thesis
    using getAiSql_from_first_success [of "Suc 0" 2 3 gen_401_then_ok "\<lparr>trace = [], leased = 0\<rparr>"] f n
    by (simp add: generated_def gen_401_then_ok_second attempt_events_def u l)
qed

text \<open>
  C5 as stated fails: a service that rejects the first call with status 401 and answers
  the second is called twice, without a wait, so a failure that is not a
  service-unavailable failure was retried.
\<close>

theorem getAiSql_retries_other_failures:
  "\<not> retries_only_when_unavailable gen_401_then_ok 3
   \<and> getAiSql gen_401_then_ok JNull 3 \<lparr>trace = [], leased = 0\<rparr> =
       (Return (Some (js ''SELECT 1'')),
        \<lparr>trace = [GroqCreate model_sql, GroqCreate model_sql], leased = 0\<rparr>)"
proof -
  have u: "\<not> unavailable (gen_401_then_ok (Suc 0))"
    by (simp add: unavailable_def gen_401_then_ok_first)
  have l: "[Suc 0..<2] = [Suc 0]" by (simp add: upt_conv_Cons)
  have "\<not> retries_only_when_unavailable gen_401_then_ok 3"
    by (simp add: retries_only_when_unavailable_def getAiSql_def gen_401_then_ok_run
        groq_calls_def u l)
  then show ?thesis by (simp add: getAiSql_def gen_401_then_ok_run)
qed

text \<open>
  C3 fails on the code: the emptiness test of line 123 comes before the cleanup, and a
  response that consists of a code fence only (with or without \<open>sql\<close> and a line feed)
  is not empty there, is cleaned to the empty string, and is returned.
\<close>

theorem getAiSql_fence_only_returns_empty:
  "sql_attempt (Completion (Some fence)) = Inr []
   \<and> sql_attempt (Completion (Some (fence @ js ''sql'' @ [10] @ fence))) = Inr []
   \<and> getAiSql gen_fence_only userQuery 3 w = (Return (Some []), emit (GroqCreate model_sql) w)"
proof -
  have 1: "sql_attempt (Completion (Some fence)) = Inr []"
    by (simp add: sql_attempt_def cleanup_def fence_def js_def trim_def isWhiteSpace_def
        replaceAll_empty_def rx_fence_def rx_fence_sql_def rx_fence_nl_def)
  have 2: "sql_attempt (Completion (Some (fence @ js ''sql'' @ [10] @ fence))) = Inr []"
    by (simp add: sql_attempt_def cleanup_def fence_def js_def trim_def isWhiteSpace_def
        replaceAll_empty_def rx_fence_def rx_fence_sql_def rx_fence_nl_def)
  have 3: "getAiSql gen_fence_only userQuery 3 w
       = (Return (Some []), emit (GroqCreate model_sql) w)"
    unfolding getAiSql_def by (subst getAiSql_from.simps) (simp add: 1 gen_fence_only_def)
  from 1 2 3 show ?thesis by blast
qed

text \<open>What the emptiness test does catch: a response that is empty or white space, or
  has no content, is a failed attempt.\<close>

lemma sql_attempt_blank_fails:
  "trim c = [] \<Longrightarrow> failed (Completion (Some c))" and "failed (Completion None)"
  by (simp_all add: failed_def sql_attempt_def)

section \<open>The summarizer\<close>

lemma getAiSummary_from_no_throw:
  "fst (getAiSummary_from summ data maxRetries attempt w) \<noteq> Throw msg"
proof (induction summ data maxRetries attempt w rule: getAiSummary_from.induct)
  case (1 summ data maxRetries attempt w)
  show ?case
  proof (cases "attempt \<le> maxRetries")
    case False
    then show ?thesis by (subst getAiSummary_from.simps) simp
  next
    case le: True
    show ?thesis
    proof (cases "summ attempt")
      case (Completion content)
      with le show ?thesis by (subst getAiSummary_from.simps) (simp add: Let_def)
    next
      case (ApiError status m)
      show ?thesis
      proof (cases "attempt = maxRetries")
        case True
        with le ApiError show ?thesis by (subst getAiSummary_from.simps) simp
      next
        case ne: False
        show ?thesis
        proof (cases "status = Some 503 \<and> attempt < maxRetries")
          case True
          with le ApiError ne "1.IH"(1) [OF le refl ApiError ne True] show ?thesis
            by (subst getAiSummary_from.simps) simp
        next
          case False
          with le ApiError ne "1.IH"(2) [OF le refl ApiError ne False] show ?thesis
            by (subst getAiSummary_from.simps) simp
        qed
      qed
    qed
  qed
qed

lemma getAiSummary_from_all_fail:
  assumes "a \<le> M" and "\<forall>k. a \<le> k \<and> k \<le> M \<longrightarrow> (\<exists>st m. summ k = ApiError st m)"
  shows "fst (getAiSummary_from summ data M a w) = Return (Some (fallback_template (length data)))"
  using assms
proof (induction "M - a" arbitrary: a w)
  case 0
  then have aM: "a = M" by simp
  from 0 obtain st m where e: "summ M = ApiError st m" using aM by auto
  show ?case unfolding aM by (subst getAiSummary_from.simps) (simp add: e)
next
  case (Suc d)
  then have lt: "a < M" by simp
  from Suc.prems obtain st m where e: "summ a = ApiError st m" by auto
  have d: "d = M - Suc a" using Suc.hyps by simp
  have le: "Suc a \<le> M" using lt by simp
  have f: "\<forall>k. Suc a \<le> k \<and> k \<le> M \<longrightarrow> (\<exists>st m. summ k = ApiError st m)" using Suc.prems by simp
  note IH = Suc.hyps(1) [OF d le f]
  have ne: "a \<noteq> M" "a \<le> M" using lt by simp_all
  show ?case
    by (subst getAiSummary_from.simps) (simp add: e lt ne IH Let_def)
qed

text \<open>
  C4. Called with rows, the summarizer never throws, whatever the service does and
  whatever the bound; and when the bound is at least one attempt and every attempt is
  rejected by the service, it returns the template that reports the number of rows.
\<close>

theorem getAiSummary_never_fails:
  "rows \<noteq> [] \<longrightarrow>
     (\<forall>msg. fst (getAiSummary summ userQuery sqlQuery (Some rows) maxRetries w) \<noteq> Throw msg)
     \<and> (1 \<le> maxRetries \<and> (\<forall>k. 1 \<le> k \<and> k \<le> maxRetries \<longrightarrow> (\<exists>st m. summ k = ApiError st m)) \<longrightarrow>
          fst (getAiSummary summ userQuery sqlQuery (Some rows) maxRetries w)
            = Return (Some (fallback_template (length rows))))"
  using getAiSummary_from_no_throw [of summ rows maxRetries 1 w]
    getAiSummary_from_all_fail [of 1 maxRetries summ rows w]
  by (auto simp: getAiSummary_def)

lemma show_nat_digit: "n < 10 \<Longrightarrow> show_nat n = [48 + n]"
  by (subst show_nat.simps) simp

theorem getAiSummary_never_fails_witness:
  "[1::nat, 2] \<noteq> []
   \<and> fst (getAiSummary gen_unavailable JNull (js ''SELECT 1'') (Some [1::nat, 2]) 2
            \<lparr>trace = [], leased = 0\<rparr>)
       = Return (Some (js ''Query executed successfully and returned 2 result(s). Please review the data below.''))"
  using getAiSummary_never_fails
    [of "[1::nat, 2]" gen_unavailable JNull "js ''SELECT 1''" 2 "\<lparr>trace = [], leased = 0\<rparr>"]
  by (simp add: gen_unavailable_def fallback_template_def show_nat_digit js_def)

text \<open>
  C9. Without rows (the argument absent, or an empty list) the summarizer returns the
  fixed message and leaves the world as it was: no call to the service is made. This holds
  for the fixed version and for the first version of the function.
\<close>

theorem getAiSummary_empty_short_circuit:
  "getAiSummary summ userQuery sqlQuery None maxRetries w = (Return (Some no_results), w)
   \<and> getAiSummary summ userQuery sqlQuery (Some []) maxRetries w = (Return (Some no_results), w)
   \<and> getAiSummary_v1 summ1 userQuery sqlQuery None w = (Return no_results_v1, w)
   \<and> getAiSummary_v1 summ1 userQuery sqlQuery (Some []) w = (Return no_results_v1, w)"
  by (simp add: getAiSummary_def getAiSummary_v1_def)

section \<open>The executor\<close>

text \<open>
  C8. Whatever the pool and the query do, the number of clients checked out is after the
  call what it was before; when a client was acquired the calls are connect, query,
  release, in this order; and every failure, of the connection or of the query, is thrown
  as "Database execution error: " followed by the message of the underlying error, while a
  success returns the rows.
\<close>

theorem executeQuery_releases_and_wraps:
  "leased (snd (executeQuery connect run sql params w)) = leased w
   \<and> trace (snd (executeQuery connect run sql params w))
       = trace w @ (if connect = None then [PoolConnect, ClientQuery sql, ClientRelease]
                    else [PoolConnect])
   \<and> (\<forall>msg. connect = Some msg \<longrightarrow>
         fst (executeQuery connect run sql params w)
           = Throw (js ''Database execution error: '' @ msg))
   \<and> (\<forall>msg. connect = None \<and> run sql params = Inl msg \<longrightarrow>
         fst (executeQuery connect run sql params w)
           = Throw (js ''Database execution error: '' @ msg))
   \<and> (\<forall>rows. connect = None \<and> run sql params = Inr rows \<longrightarrow>
         fst (executeQuery connect run sql params w) = Return rows)"
  by (cases connect; cases "run sql params")
     (simp_all add: executeQuery_def acquire_def release_def emit_def)

theorem executeQuery_releases_and_wraps_witness:
  "fst (executeQuery (Some (js ''timeout'')) run_one_row (js ''SELECT 1'') [] \<lparr>trace = [], leased = 0\<rparr>)
     = Throw (js ''Database execution error: timeout'')
   \<and> leased (snd (executeQuery (Some (js ''timeout'')) run_one_row (js ''SELECT 1'') []
                    \<lparr>trace = [], leased = 0\<rparr>)) = 0
   \<and> fst (executeQuery None run_syntax_error (js ''SELECT 1'') [] \<lparr>trace = [], leased = 0\<rparr>)
     = Throw (js ''Database execution error: syntax error'')
   \<and> trace (snd (executeQuery None run_syntax_error (js ''SELECT 1'') [] \<lparr>trace = [], leased = 0\<rparr>))
     = [PoolConnect, ClientQuery (js ''SELECT 1''), ClientRelease]
   \<and> leased (snd (executeQuery None run_syntax_error (js ''SELECT 1'') []
                    \<lparr>trace = [], leased = 0\<rparr>)) = 0
   \<and> fst (executeQuery None run_one_row (js ''SELECT 1'') [] \<lparr>trace = [], leased = 0\<rparr>)
     = Return [1]
   \<and> leased (snd (executeQuery None run_one_row (js ''SELECT 1'') []
                    \<lparr>trace = [], leased = 0\<rparr>)) = 0"
  using executeQuery_releases_and_wraps
      [of "Some (js ''timeout'')" run_one_row "js ''SELECT 1''" "[]" "\<lparr>trace = [], leased = 0\<rparr>"]
    executeQuery_releases_and_wraps
      [of None run_syntax_error "js ''SELECT 1''" "[]" "\<lparr>trace = [], leased = 0\<rparr>"]
    executeQuery_releases_and_wraps
      [of None run_one_row "js ''SELECT 1''" "[]" "\<lparr>trace = [], leased = 0\<rparr>"]
  by (simp add: run_syntax_error_def run_one_row_def js_def)

section \<open>The request handler\<close>

text \<open>
  C10. When the body of the request has no \<open>query\<close> field, or the field is the empty
  string, the response is status 400 with the error "Query is required." and the world is
  as it was: the generator, the validator and the database were not called.
\<close>

theorem post_api_query_requires_query:
  assumes "map_of req_body (js ''query'') = None \<or> map_of req_body (js ''query'') = Some (JStr [])"
  shows "post_api_query gen summ connect run req_body w
           = ((400, ErrorOnly (js ''Query is required.'')), w)"
  using assms by (auto simp: post_api_query_def)

theorem post_api_query_requires_query_witness:
  "post_api_query gen_unavailable gen_unavailable None run_one_row [] \<lparr>trace = [], leased = 0\<rparr>
     = ((400, ErrorOnly (js ''Query is required.'')), \<lparr>trace = [], leased = 0\<rparr>)
   \<and> post_api_query gen_unavailable gen_unavailable None run_one_row [(js ''query'', JStr [])]
       \<lparr>trace = [], leased = 0\<rparr>
     = ((400, ErrorOnly (js ''Query is required.'')), \<lparr>trace = [], leased = 0\<rparr>)"
  using post_api_query_requires_query
      [of "[]" gen_unavailable gen_unavailable None run_one_row "\<lparr>trace = [], leased = 0\<rparr>"]
    post_api_query_requires_query
      [of "[(js ''query'', JStr [])]" gen_unavailable gen_unavailable None run_one_row
          "\<lparr>trace = [], leased = 0\<rparr>"]
  by simp

text \<open>Once generation, validation and execution have succeeded, the response is the
  payload with status 200, whatever the summarization service does.\<close>

lemma getAiSummary_from_returns_text:
  assumes "a \<le> M"
  shows "\<exists>s. fst (getAiSummary_from summ data M a w) = Return (Some s)"
  using assms
proof (induction "M - a" arbitrary: a w)
  case 0
  then have aM: "a = M" by simp
  show ?case unfolding aM
    by (subst getAiSummary_from.simps) (simp add: Let_def split: groq_result.splits)
next
  case (Suc d)
  then have lt: "a < M" by simp
  have d: "d = M - Suc a" using Suc.hyps by simp
  have le: "Suc a \<le> M" using lt by simp
  note IH = Suc.hyps(1) [OF d le]
  have ne: "a \<noteq> M" "a \<le> M" using lt by simp_all
  show ?case
    by (subst getAiSummary_from.simps) (simp add: lt ne IH Let_def split: groq_result.splits)
qed

lemma getAiSummary_returns_text:
  "\<exists>s w'. getAiSummary summ userQuery sqlQuery (Some data) 2 w = (Return (Some s), w')"
proof (cases "length data = 0")
  case True
  then show ?thesis by (simp add: getAiSummary_def)
next
  case False
  obtain s where "fst (getAiSummary_from summ data 2 1 w) = Return (Some s)"
    using getAiSummary_from_returns_text [of 1 2 summ data w] by auto
  then have "getAiSummary_from summ data 2 1 w = (Return (Some s), snd (getAiSummary_from summ data 2 1 w))"
    by (metis prod.collapse)
  with False show ?thesis by (auto simp: getAiSummary_def)
qed

lemma post_api_query_summarizer_cannot_fail:
  assumes "truthy v" and "map_of req_body (js ''query'') = Some v"
    and "getAiSql gen v 3 w = (Return (Some sql), w0)" and "isValidSqlQuery (JStr sql)"
    and "executeQuery connect run sql [] (emit Validate w0) = (Return data, w2)"
  shows "\<exists>summary w3. post_api_query gen summ connect run req_body w
           = ((200, Payload data summary sql), w3)"
proof -
  obtain s w3 where "getAiSummary summ v sql (Some data) 2 w2 = (Return (Some s), w3)"
    using getAiSummary_returns_text by blast
  with assms show ?thesis
    by (simp add: post_api_query_def to_jsval_def in_template_def)
qed

section \<open>The loader\<close>

text \<open>
  C2 fails on the code. For a row without responses, with attendance 40 and rated
  percentage 50, the loop body throws the TypeError of an assignment to a constant, and so
  does the whole run: no responses are derived and nothing is stored.
\<close>

theorem responses_backfill_throws:
  "process_row (example_row\<lparr>r_responses := None, r_attended := Some 40, r_ratedPct := Some 50\<rparr>) st
     = Inl (TypeError (js ''Assignment to constant variable.''))
   \<and> main [example_row\<lparr>r_responses := None, r_attended := Some 40, r_ratedPct := Some 50\<rparr>] d
     = Inl (TypeError (js ''Assignment to constant variable.''))"
  by (simp add: main_def process_row_def)

text \<open>The same for every row in which the responses are absent and the other two values
  are present.\<close>

lemma process_row_backfill_always_throws:
  assumes "r_responses r = None" and "r_attended r = Some a" and "r_ratedPct r = Some p"
  shows "process_row r st = Inl (TypeError (js ''Assignment to constant variable.''))"
  using assms by (simp add: process_row_def)

lemma upsert_fact_conflict:
  assumes "conflicts new old" and "\<forall>r\<in>set before. \<not> conflicts new r"
  shows "upsert_fact new (before @ old # rest) =
           (before @ old\<lparr>average := average new, responses := responses new,
                          students_attended := students_attended new,
                          rated_pct := rated_pct new\<rparr> # rest, False)"
  using assms by (induction before) simp_all

text \<open>
  C6. When the proposed row conflicts with a stored row on the natural key, the upsert
  changes that row only, reports an update, and the row keeps every column except the four
  metrics, which take the proposed values: the dimension references, the timestamp, the
  five calendar columns, the topic code and the session id are those of the stored row.
\<close>

theorem upsert_fact_conflict_frame:
  assumes "conflicts new old" and "\<forall>r\<in>set before. \<not> conflicts new r"
  shows "\<exists>r'. upsert_fact new (before @ old # rest) = (before @ r' # rest, False)
     \<and> average r' = average new \<and> responses r' = responses new
     \<and> students_attended r' = students_attended new \<and> rated_pct r' = rated_pct new
     \<and> type_id r' = type_id old \<and> domain_id r' = domain_id old \<and> class_id r' = class_id old
     \<and> instructor_id r' = instructor_id old \<and> session_ts_utc r' = session_ts_utc old
     \<and> pst_date r' = pst_date old \<and> pst_year r' = pst_year old \<and> pst_month r' = pst_month old
     \<and> pst_quarter r' = pst_quarter old \<and> pst_month_start r' = pst_month_start old
     \<and> session_id r' = session_id old \<and> topic_code r' = topic_code old"
proof -
  let ?r = "old\<lparr>average := average new, responses := responses new,
                 students_attended := students_attended new, rated_pct := rated_pct new\<rparr>"
  have "upsert_fact new (before @ old # rest) = (before @ ?r # rest, False)"
    using assms by (rule upsert_fact_conflict)
  then show ?thesis by (intro exI [of _ ?r]) simp
qed

theorem upsert_fact_conflict_frame_witness:
  "conflicts proposed_fact stored_fact
   \<and> snd (upsert_fact proposed_fact [stored_fact]) = False
   \<and> map average (fst (upsert_fact proposed_fact [stored_fact])) = [Some 5]
   \<and> map responses (fst (upsert_fact proposed_fact [stored_fact])) = [Some 30]
   \<and> map students_attended (fst (upsert_fact proposed_fact [stored_fact])) = [Some 60]
   \<and> map pst_year (fst (upsert_fact proposed_fact [stored_fact])) = [2025]
   \<and> map pst_quarter (fst (upsert_fact proposed_fact [stored_fact])) = [1]
   \<and> map session_ts_utc (fst (upsert_fact proposed_fact [stored_fact])) = [(2025, 1, 4)]
   \<and> map session_id (fst (upsert_fact proposed_fact [stored_fact])) = [1]"
proof -
  have c: "conflicts proposed_fact stored_fact"
    by (simp add: conflicts_def proposed_fact_def stored_fact_def)
  have n: "\<forall>r\<in>set []. \<not> conflicts proposed_fact r" by simp
  from upsert_fact_conflict_frame [OF c n, of "[]"]
  obtain r' where "upsert_fact proposed_fact [stored_fact] = ([r'], False)"
    "average r' = average proposed_fact" "responses r' = responses proposed_fact"
    "students_attended r' = students_attended proposed_fact"
    "pst_year r' = pst_year stored_fact" "pst_quarter r' = pst_quarter stored_fact"
    "session_ts_utc r' = session_ts_utc stored_fact" "session_id r' = session_id stored_fact"
    by auto
  with c show ?thesis by (simp add: proposed_fact_def stored_fact_def)
qed

text \<open>
  C7 fails on the code. A row that has its four required fields and a date that cannot be
  normalized is counted twice: the run reports one skipped row, under the label "missing
  required fields", and one bad date, although no row misses a required field.
\<close>

theorem bad_date_counted_twice:
  "r_type (example_row\<lparr>r_pstDate := None\<rparr>) \<noteq> [] \<and> r_domain (example_row\<lparr>r_pstDate := None\<rparr>) \<noteq> []
   \<and> r_clazz (example_row\<lparr>r_pstDate := None\<rparr>) \<noteq> [] \<and> r_instr (example_row\<lparr>r_pstDate := None\<rparr>) \<noteq> []
   \<and> main [example_row\<lparr>r_pstDate := None\<rparr>] empty_db = Inr ((0, 0, 1, 1), empty_db)"
  by (simp add: main_def process_row_def example_row_def js_def)

text \<open>The same for every row that reaches the date test (lines 185 to 190) with a date
  that cannot be normalized: both counters go up by one.\<close>

lemma process_row_unparsed_date:
  assumes "r_type r \<noteq> []" "r_domain r \<noteq> []" "r_clazz r \<noteq> []" "r_instr r \<noteq> []"
    and "r_pstDate r = None" and "r_responses r = Some n"
  shows "process_row r st = Inr (st\<lparr>badDate := badDate st + 1, skipped := skipped st + 1\<rparr>)"
  using assms by (simp add: process_row_def split: option.splits)

text \<open>A row that misses a required field is counted as skipped only, whatever its date:
  the test of the four fields (lines 180 to 183) comes first.\<close>

lemma process_row_missing_required:
  assumes "r_type r = [] \<or> r_domain r = [] \<or> r_clazz r = [] \<or> r_instr r = []"
    and "r_responses r = Some n"
  shows "process_row r st = Inr (st\<lparr>skipped := skipped st + 1\<rparr>)"
proof -
  from assms(1) have m: "(r_type r = [] \<or> r_domain r = [] \<or> r_clazz r = [] \<or> r_instr r = []) = True"
    by simp
  show ?thesis
    unfolding process_row_def Let_def m using assms(2) by simp
qed

end
